theory Spec2Isabelle
  imports Complex_Main "HOL-Library.Sublist"
begin

section \<open>The service worker (static/service-worker.js)\<close>

subsection \<open>Constants\<close>

definition CACHE_VERSION :: string where
  "CACHE_VERSION = ''v2.1''"

definition STATIC_CACHE :: string where
  "STATIC_CACHE = ''ficore-static-'' @ CACHE_VERSION"

definition DYNAMIC_CACHE :: string where
  "DYNAMIC_CACHE = ''ficore-dynamic-'' @ CACHE_VERSION"

definition API_CACHE :: string where
  "API_CACHE = ''ficore-api-'' @ CACHE_VERSION"

definition STATIC_ASSETS :: "string list" where
  "STATIC_ASSETS =
    [''/static/css/styles.css'',
     ''/static/css/bootstrap-icons.min.css'',
     ''/static/css/newbasefilelooks.css'',
     ''/static/css/iconslooks.css'',
     ''/static/css/newhomepagepersonal.css'',
     ''/static/css/dark_mode_enhancements.css'',
     ''/static/css/tool-header-fix.css'',
     ''/static/js/scripts.js'',
     ''/static/js/interactivity.js'',
     ''/static/js/offline-manager.js'',
     ''/static/manifest.json'',
     ''/static/img/favicon.ico'',
     ''/static/img/apple-touch-icon.png'',
     ''/static/img/favicon-32x32.png'',
     ''/static/img/favicon-16x16.png'',
     ''/static/img/default_profile.png'',
     ''/static/img/ficore_africa_logo.png'',
     ''/static/img/icons/icon-192x192.png'',
     ''/static/img/icons/icon-512x512.png'']"

definition NETWORK_FIRST_ROUTES :: "string list" where
  "NETWORK_FIRST_ROUTES =
    [''/users/login'',
     ''/users/logout'',
     ''/users/signup'',
     ''/users/forgot_password'',
     ''/users/reset_password'',
     ''/users/verify_2fa'',
     ''/api/notifications/count'',
     ''/change-language'']"

definition CACHEABLE_API_ROUTES :: "string list" where
  "CACHEABLE_API_ROUTES =
    [''/dashboard/'',
     ''/bills/'',
     ''/budget/'',
     ''/shopping/'',
     ''/reports/'',
     ''/settings/profile'']"

definition CACHE_FIRST_ROUTES :: "string list" where
  "CACHE_FIRST_ROUTES =
    [''/general/home'',
     ''/general/landing'',
     ''/set-language'']"

subsection \<open>Strings\<close>

text \<open>
  \<^verbatim>\<open>s.startsWith(p)\<close> compares the first \<open>length p\<close> characters of \<open>s\<close> with \<open>p\<close>;
  \<^verbatim>\<open>s.includes(p)\<close> looks for \<open>p\<close> at every position of \<open>s\<close>.
\<close>

definition startsWith :: "string \<Rightarrow> string \<Rightarrow> bool" where
  "startsWith s p = (take (length p) s = p)"

fun includes_str :: "string \<Rightarrow> string \<Rightarrow> bool" where
  "includes_str [] p = (p = [])"
| "includes_str (c # cs) p = (startsWith (c # cs) p \<or> includes_str cs p)"

subsection \<open>Requests, responses and JavaScript values\<close>

text \<open>
  A request carries its method, its URL as a string, the two parts of the URL that the
  listener reads from \<^verbatim>\<open>new URL(event.request.url)\<close> (the platform's parser is not
  modelled: the record holds its result), and the value of the accept header
  (\<open>None\<close> when \<^verbatim>\<open>headers.get('accept')\<close> is null).
\<close>

record request =
  req_method :: string
  req_url :: string
  url_protocol :: string
  url_pathname :: string
  hdr_accept :: "string option"

text \<open>
  The body of a response: the markup of \<^verbatim>\<open>createOfflineHTML()\<close>, the object
  \<^verbatim>\<open>{offline, message, timestamp}\<close> serialised by \<^verbatim>\<open>JSON.stringify\<close>, a plain
  string, or whatever bytes a server sent.
\<close>

datatype body =
    OfflineHTML
  | OfflineJSON bool string int
  | PlainText string
  | Served string

record response =
  status :: nat
  headers :: "(string \<times> string) list"
  body :: body

definition ok :: "response \<Rightarrow> bool" where
  "ok r = (200 \<le> status r \<and> status r \<le> 299)"

text \<open>
  The values the handlers compute with: \<^verbatim>\<open>undefined\<close>, \<^verbatim>\<open>null\<close>, a Response
  object, and a promise, given by the value it settles to. Every object, a promise
  included, is truthy; \<^verbatim>\<open>a || b\<close> is \<open>a\<close> when \<open>a\<close> is truthy and \<open>b\<close> otherwise.
  An \<^verbatim>\<open>async\<close> function that returns a promise resolves to what that promise
  resolves to (\<open>settle\<close>).
\<close>

datatype js_value =
    JUndefined
  | JNull
  | JResponse response
  | JPromise js_value

fun truthy :: "js_value \<Rightarrow> bool" where
  "truthy JUndefined = False"
| "truthy JNull = False"
| "truthy (JResponse r) = True"
| "truthy (JPromise v) = True"

definition js_or :: "js_value \<Rightarrow> js_value \<Rightarrow> js_value" where
  "js_or a b = (if truthy a then a else b)"

fun settle :: "js_value \<Rightarrow> js_value" where
  "settle (JPromise v) = settle v"
| "settle JUndefined = JUndefined"
| "settle JNull = JNull"
| "settle (JResponse r) = JResponse r"

subsection \<open>Cache storage\<close>

text \<open>
  \<^verbatim>\<open>caches\<close> is a list of named caches in creation order; a cache is a list of
  entries keyed by request URL. \<^verbatim>\<open>caches.match\<close> searches the caches in that order.
  \<^verbatim>\<open>caches.open\<close> creates a missing cache; whether its promise resolves at all is
  a matter of the platform (see \<open>cache_opens\<close> below).
\<close>

type_synonym cache = "(string \<times> response) list"
type_synonym cache_storage = "(string \<times> cache) list"

definition caches_keys :: "cache_storage \<Rightarrow> string list" where
  "caches_keys cs = map fst cs"

definition caches_open :: "string \<Rightarrow> cache_storage \<Rightarrow> cache_storage" where
  "caches_open name cs = (if name \<in> set (caches_keys cs) then cs else cs @ [(name, [])])"

definition caches_delete :: "string \<Rightarrow> cache_storage \<Rightarrow> cache_storage" where
  "caches_delete name cs = filter (\<lambda>nc. fst nc \<noteq> name) cs"

fun entry_put :: "string \<Rightarrow> 'a \<Rightarrow> (string \<times> 'a) list \<Rightarrow> (string \<times> 'a) list" where
  "entry_put u r [] = [(u, r)]"
| "entry_put u r ((k, v) # es) = (if k = u then (u, r) # es else (k, v) # entry_put u r es)"

definition cache_put :: "string \<Rightarrow> string \<Rightarrow> response \<Rightarrow> cache_storage \<Rightarrow> cache_storage" where
  "cache_put name u r cs =
     map (\<lambda>nc. if fst nc = name then (fst nc, entry_put u r (snd nc)) else nc) (caches_open name cs)"

fun caches_match :: "cache_storage \<Rightarrow> string \<Rightarrow> response option" where
  "caches_match [] u = None"
| "caches_match ((n, c) # cs) u =
     (case map_of c u of Some r \<Rightarrow> Some r | None \<Rightarrow> caches_match cs u)"

definition of_match :: "response option \<Rightarrow> js_value" where
  "of_match m = (case m of Some r \<Rightarrow> JResponse r | None \<Rightarrow> JUndefined)"

subsection \<open>Offline responses\<close>

definition accepts :: "request \<Rightarrow> string \<Rightarrow> bool" where
  "accepts req t = (case hdr_accept req of None \<Rightarrow> False | Some a \<Rightarrow> includes_str a t)"

text \<open>
  \<open>origin\<close> is the origin the worker is served from (the string \<^verbatim>\<open>'/general/home'\<close>
  given to \<^verbatim>\<open>caches.match\<close> is resolved against it); \<open>now\<close> is \<^verbatim>\<open>Date.now()\<close>.
  The headers of a response are listed as its \<^verbatim>\<open>Headers\<close> object lists them: names in
  lower case, and \<^verbatim>\<open>text/plain;charset=UTF-8\<close> for a response built from a string with
  no content type of its own.
\<close>

definition createOfflineResponse :: "string \<Rightarrow> int \<Rightarrow> cache_storage \<Rightarrow> request \<Rightarrow> js_value" where
  "createOfflineResponse origin now cs req =
     (if accepts req ''text/html'' then
        JPromise (js_or (of_match (caches_match cs (origin @ ''/general/home'')))
          (JResponse \<lparr>status = 200, headers = [(''content-type'', ''text/html'')],
                      body = OfflineHTML\<rparr>))
      else if accepts req ''application/json'' then
        JResponse \<lparr>status = 200, headers = [(''content-type'', ''application/json'')],
                   body = OfflineJSON True ''This data is not available offline'' now\<rparr>
      else
        JResponse \<lparr>status = 503, headers = [(''content-type'', ''text/plain;charset=UTF-8'')],
                   body = PlainText ''Offline: Resource not available''\<rparr>)"

subsection \<open>The three strategies\<close>

text \<open>
  What the worker's surroundings do in one fetch event: \<open>net_fetch\<close> gives the response
  of \<^verbatim>\<open>fetch\<close> to a request, \<open>None\<close> when the promise rejects; \<open>cache_opens\<close> tells
  whether the promise of \<^verbatim>\<open>caches.open\<close> for a cache name resolves (it rejects when
  the storage refuses, as on a full quota). A handler returns the value its
  \<^verbatim>\<open>async\<close> body returns and the cache storage once its writes have landed.
\<close>

record platform =
  net_fetch :: "request \<Rightarrow> response option"
  cache_opens :: "string \<Rightarrow> bool"

text \<open>
  The \<^verbatim>\<open>catch\<close> block of \<^verbatim>\<open>handleNetworkFirst\<close>. It is entered when
  \<^verbatim>\<open>await fetch(request)\<close> throws and also when \<^verbatim>\<open>await caches.open(DYNAMIC_CACHE)\<close>
  throws, since both stand inside the \<^verbatim>\<open>try\<close>.
\<close>

definition networkFirst_catch ::
  "string \<Rightarrow> int \<Rightarrow> cache_storage \<Rightarrow> request \<Rightarrow> js_value \<times> cache_storage" where
  "networkFirst_catch origin now cs req =
     (case caches_match cs (req_url req) of
        Some cachedResponse \<Rightarrow> (JResponse cachedResponse, cs)
      | None \<Rightarrow> (createOfflineResponse origin now cs req, cs))"

definition handleNetworkFirst ::
  "platform \<Rightarrow> string \<Rightarrow> int \<Rightarrow> cache_storage \<Rightarrow> request \<Rightarrow> js_value \<times> cache_storage" where
  "handleNetworkFirst net origin now cs req =
     (case net_fetch net req of
        Some networkResponse \<Rightarrow>
          if ok networkResponse then
            (if cache_opens net DYNAMIC_CACHE
             then (JResponse networkResponse,
                   cache_put DYNAMIC_CACHE (req_url req) networkResponse cs)
             else networkFirst_catch origin now cs req)
          else (JResponse networkResponse, cs)
      | None \<Rightarrow> networkFirst_catch origin now cs req)"

text \<open>
  In \<^verbatim>\<open>handleCacheFirst\<close> the cache lookup stands before the \<^verbatim>\<open>try\<close>; the
  \<^verbatim>\<open>catch\<close> answers a throwing \<^verbatim>\<open>fetch\<close> and a throwing
  \<^verbatim>\<open>caches.open(STATIC_CACHE)\<close> alike with the offline response.
\<close>

definition handleCacheFirst ::
  "platform \<Rightarrow> string \<Rightarrow> int \<Rightarrow> cache_storage \<Rightarrow> request \<Rightarrow> js_value \<times> cache_storage" where
  "handleCacheFirst net origin now cs req =
     (case caches_match cs (req_url req) of
        Some cachedResponse \<Rightarrow> (JResponse cachedResponse, cs)
      | None \<Rightarrow>
          (case net_fetch net req of
             Some networkResponse \<Rightarrow>
               if ok networkResponse then
                 (if cache_opens net STATIC_CACHE
                  then (JResponse networkResponse,
                        cache_put STATIC_CACHE (req_url req) networkResponse cs)
                  else (createOfflineResponse origin now cs req, cs))
               else (JResponse networkResponse, cs)
           | None \<Rightarrow> (createOfflineResponse origin now cs req, cs)))"

text \<open>
  In \<^verbatim>\<open>handleStaleWhileRevalidate\<close> the constant \<open>fetchPromise\<close> is the promise
  \<^verbatim>\<open>fetch(request).then(...).catch(() => null)\<close>: it settles to the network response,
  or to \<^verbatim>\<open>null\<close> when the fetch rejects. The promise of \<^verbatim>\<open>caches.open\<close> is not
  awaited there: when it rejects nothing is written and the response is not affected.
  The function returns
  \<^verbatim>\<open>cachedResponse || fetchPromise || createOfflineResponse(request)\<close>.
\<close>

definition handleStaleWhileRevalidate ::
  "platform \<Rightarrow> string \<Rightarrow> int \<Rightarrow> cache_storage \<Rightarrow> request \<Rightarrow> js_value \<times> cache_storage" where
  "handleStaleWhileRevalidate net origin now cs req =
     (let cachedResponse = of_match (caches_match cs (req_url req));
          fetchPromise =
            JPromise (case net_fetch net req of Some networkResponse \<Rightarrow> JResponse networkResponse
                                               | None \<Rightarrow> JNull);
          target = (if includes_str (req_url req) ''/api/'' then API_CACHE else DYNAMIC_CACHE);
          cs' = (case net_fetch net req of
                   Some networkResponse \<Rightarrow>
                     if ok networkResponse \<and> cache_opens net target
                     then cache_put target (req_url req) networkResponse cs
                     else cs
                 | None \<Rightarrow> cs)
      in (js_or (js_or cachedResponse fetchPromise) (createOfflineResponse origin now cs req), cs'))"

subsection \<open>The fetch listener\<close>

datatype handler = HandleNetworkFirst | HandleCacheFirst | HandleStaleWhileRevalidate

text \<open>
  \<open>fetch_listener\<close> is the branch structure of the listener: \<open>None\<close> when it returns
  without calling \<^verbatim>\<open>event.respondWith\<close>, otherwise the handler whose result it
  responds with.
\<close>

definition fetch_listener :: "request \<Rightarrow> handler option" where
  "fetch_listener req =
     (let pathname = url_pathname req in
      if req_method req \<noteq> ''GET'' \<or> url_protocol req = ''chrome-extension:'' then None
      else if list_ex (\<lambda>route. startsWith pathname route) NETWORK_FIRST_ROUTES then
        Some HandleNetworkFirst
      else if list_ex (\<lambda>route. startsWith pathname route) CACHEABLE_API_ROUTES then
        Some HandleStaleWhileRevalidate
      else if list_ex (\<lambda>route. startsWith pathname route) CACHE_FIRST_ROUTES then
        Some HandleCacheFirst
      else if list_ex (\<lambda>asset. pathname = asset) STATIC_ASSETS then
        Some HandleCacheFirst
      else Some HandleStaleWhileRevalidate)"

fun run_handler ::
  "handler \<Rightarrow> platform \<Rightarrow> string \<Rightarrow> int \<Rightarrow> cache_storage \<Rightarrow> request \<Rightarrow> js_value \<times> cache_storage" where
  "run_handler HandleNetworkFirst = handleNetworkFirst"
| "run_handler HandleCacheFirst = handleCacheFirst"
| "run_handler HandleStaleWhileRevalidate = handleStaleWhileRevalidate"

text \<open>
  What the page sees of one fetch event: the request goes to the network untouched, or
  the worker responds with the settled value of the handler's promise.
\<close>

datatype fetch_outcome = PassThrough | RespondWith js_value cache_storage

definition on_fetch ::
  "platform \<Rightarrow> string \<Rightarrow> int \<Rightarrow> cache_storage \<Rightarrow> request \<Rightarrow> fetch_outcome" where
  "on_fetch net origin now cs req =
     (case fetch_listener req of
        None \<Rightarrow> PassThrough
      | Some h \<Rightarrow>
          (case run_handler h net origin now cs req of (v, cs') \<Rightarrow> RespondWith (settle v) cs'))"

subsection \<open>Activation\<close>

definition cacheWhitelist :: "string list" where
  "cacheWhitelist = [STATIC_CACHE, DYNAMIC_CACHE, API_CACHE]"

text \<open>
  The activate listener maps over \<^verbatim>\<open>caches.keys()\<close> and deletes every cache whose
  name the whitelist does not include; the event waits for all the deletions.
\<close>

definition activate :: "cache_storage \<Rightarrow> cache_storage" where
  "activate cs =
     fold (\<lambda>cacheName acc. if cacheName \<notin> set cacheWhitelist then caches_delete cacheName acc else acc)
       (caches_keys cs) cs"

section \<open>The offline manager (static/js/offline-manager.js)\<close>

subsection \<open>The durable store\<close>

text \<open>
  The manager opens the platform's IndexedDB (\<^verbatim>\<open>indexedDB.open\<close>) and keeps the raw
  database handle in \<^verbatim>\<open>this.db\<close>. On that interface every method of an object store
  or an index returns an \<^verbatim>\<open>IDBRequest\<close> at once and delivers its result to the
  request's \<^verbatim>\<open>onsuccess\<close> handler later. The request is an object without a
  \<^verbatim>\<open>then\<close> method: \<^verbatim>\<open>await\<close> gives back the request itself, calling
  \<^verbatim>\<open>.then\<close> on it throws a TypeError, it cannot be iterated, and reading a property it
  does not have gives \<^verbatim>\<open>undefined\<close>. A key is a number or a string (dates, binary
  data and arrays are not used here); a boolean is not a key: a method given one as its
  query throws a DataError, and a record whose indexed property is a boolean is left out
  of the index.
\<close>

datatype js_exception = DataError | TypeError

datatype js_key = KNumber rat | KString string | KBoolean bool

fun valid_key :: "js_key \<Rightarrow> bool" where
  "valid_key (KNumber n) = True"
| "valid_key (KString s) = True"
| "valid_key (KBoolean b) = False"

text \<open>A request, with the result it will deliver to its \<^verbatim>\<open>onsuccess\<close> handler.\<close>

datatype 'a idb_request = IDBRequest 'a

text \<open>
  A record of the object store \<^verbatim>\<open>offlineActions\<close>. Its primary key is \<^verbatim>\<open>id\<close>
  (\<open>act_id\<close>), a double, held as the rational number the double is.
  \<^verbatim>\<open>method\<close> and \<^verbatim>\<open>headers\<close> may be missing from an action (\<open>None\<close>, the empty
  list).
\<close>

record queued_action =
  act_id :: rat
  act_type :: string
  act_url :: string
  act_method :: "string option"
  act_headers :: "(string \<times> string) list"
  act_body :: string
  timestamp :: int
  synced :: bool

text \<open>A record of the object store \<^verbatim>\<open>cachedData\<close>, keyed by \<^verbatim>\<open>key\<close>.\<close>

record 'd cached_record =
  c_key :: string
  c_data :: 'd
  c_timestamp :: int
  expiry :: int

record 'd durable_store =
  offlineActions :: "queued_action list"
  cachedData :: "'d cached_record list"

text \<open>
  The manager: \<^verbatim>\<open>this.db\<close> is \<^verbatim>\<open>null\<close> until the database has been opened,
  \<^verbatim>\<open>this.isOnline\<close> follows the online and offline events.
\<close>

record 'd manager =
  db :: "'d durable_store option"
  isOnline :: bool

text \<open>
  What a request does to its table once it is carried out: \<^verbatim>\<open>add\<close> writes the record
  unless its key is present (the request then fails, and nothing is thrown to the caller
  of \<^verbatim>\<open>add\<close>), \<^verbatim>\<open>put\<close> replaces the record under the key or inserts it.
\<close>

definition actions_add :: "queued_action \<Rightarrow> queued_action list \<Rightarrow> queued_action list" where
  "actions_add a st = (if act_id a \<in> set (map act_id st) then st else st @ [a])"

definition actions_put :: "queued_action \<Rightarrow> queued_action list \<Rightarrow> queued_action list" where
  "actions_put a st =
     (if act_id a \<in> set (map act_id st)
      then map (\<lambda>r. if act_id r = act_id a then a else r) st
      else st @ [a])"

definition cached_put :: "'d cached_record \<Rightarrow> 'd cached_record list \<Rightarrow> 'd cached_record list" where
  "cached_put c st =
     (if c_key c \<in> set (map c_key st)
      then map (\<lambda>r. if c_key r = c_key c then c else r) st
      else st @ [c])"

text \<open>\<^verbatim>\<open>store.get(key)\<close>: the request that will deliver the record under the key.\<close>

definition cached_get :: "string \<Rightarrow> 'd cached_record list \<Rightarrow> 'd cached_record option idb_request" where
  "cached_get k st = IDBRequest (find (\<lambda>r. c_key r = k) st)"

text \<open>
  The index \<^verbatim>\<open>synced\<close> of \<^verbatim>\<open>offlineActions\<close>: the records whose property
  \<^verbatim>\<open>synced\<close> is a valid key, in the order of that key and then of the primary key.
  \<^verbatim>\<open>getAll\<close> and \<^verbatim>\<open>count\<close> on the index throw a DataError for a query that is not
  a valid key.
\<close>

definition synced_index :: "queued_action list \<Rightarrow> (js_key \<times> queued_action) list" where
  "synced_index st =
     filter (\<lambda>e. valid_key (fst e)) (map (\<lambda>r. (KBoolean (synced r), r)) (sort_key act_id st))"

definition index_getAll ::
  "js_key \<Rightarrow> queued_action list \<Rightarrow> js_exception + queued_action list idb_request" where
  "index_getAll query st =
     (if valid_key query
      then Inr (IDBRequest (map snd (filter (\<lambda>e. fst e = query) (synced_index st))))
      else Inl DataError)"

definition index_count ::
  "js_key \<Rightarrow> queued_action list \<Rightarrow> js_exception + nat idb_request" where
  "index_count query st =
     (if valid_key query
      then Inr (IDBRequest (length (filter (\<lambda>e. fst e = query) (synced_index st))))
      else Inl DataError)"

text \<open>
  What the manager does with a request it has awaited: \<^verbatim>\<open>for (... of request)\<close> and
  \<^verbatim>\<open>request.then(...)\<close> throw a TypeError; \<^verbatim>\<open>request.expiry\<close> and
  \<^verbatim>\<open>request.data\<close> are \<^verbatim>\<open>undefined\<close> (\<open>None\<close>); and \<^verbatim>\<open>undefined > n\<close> is false.
\<close>

definition for_of :: "'a list idb_request \<Rightarrow> js_exception + 'a list" where
  "for_of request = Inl TypeError"

definition call_then :: "'a idb_request \<Rightarrow> js_exception + unit" where
  "call_then request = Inl TypeError"

definition request_expiry :: "'a idb_request \<Rightarrow> int option" where
  "request_expiry request = None"

definition request_data :: "'a idb_request \<Rightarrow> 'b option" where
  "request_data request = None"

definition js_greater :: "int option \<Rightarrow> int \<Rightarrow> bool" where
  "js_greater a b = (case a of None \<Rightarrow> False | Some x \<Rightarrow> x > b)"

subsection \<open>The pending-sync count\<close>

text \<open>
  \<^verbatim>\<open>updateSyncStatus\<close> returns at once without a store handle; otherwise it calls
  \<^verbatim>\<open>index.count(false).then(...)\<close>. It has no \<^verbatim>\<open>try\<close> of its own: what is thrown
  there reaches the caller.
\<close>

definition updateSyncStatus :: "'d manager \<Rightarrow> js_exception + unit" where
  "updateSyncStatus m =
     (case db m of
        None \<Rightarrow> Inr ()
      | Some d \<Rightarrow>
          (case index_count (KBoolean False) (offlineActions d) of
             Inl e \<Rightarrow> Inl e
           | Inr request \<Rightarrow> call_then request))"

subsection \<open>Storing an action\<close>

text \<open>
  \<open>now\<close> is the reading of \<^verbatim>\<open>Date.now()\<close> stored as \<^verbatim>\<open>timestamp\<close>; \<open>idv\<close> is the
  double that \<^verbatim>\<open>Date.now() + Math.random()\<close> evaluates to, with a second reading of
  the clock. The three fields written after the spread replace whatever the action
  carried under those names. After the awaited \<^verbatim>\<open>add\<close> the function calls
  \<^verbatim>\<open>updateSyncStatus\<close> inside its \<^verbatim>\<open>try\<close>, and its \<^verbatim>\<open>catch\<close> returns
  \<^verbatim>\<open>false\<close>.
\<close>

definition storeOfflineAction ::
  "'d manager \<Rightarrow> queued_action \<Rightarrow> int \<Rightarrow> rat \<Rightarrow> bool \<times> 'd manager" where
  "storeOfflineAction m action now idv =
     (case db m of
        None \<Rightarrow> (False, m)
      | Some d \<Rightarrow>
          (let actionData = action\<lparr>timestamp := now, synced := False, act_id := idv\<rparr>;
               m' = m\<lparr>db := Some (d\<lparr>offlineActions := actions_add actionData (offlineActions d)\<rparr>)\<rparr>
           in case updateSyncStatus m' of
                Inr u \<Rightarrow> (True, m')
              | Inl e \<Rightarrow> (False, m')))"

subsection \<open>The application-level cache\<close>

text \<open>
  \<open>None\<close> is the \<^verbatim>\<open>null\<close> that \<^verbatim>\<open>getCachedData\<close> returns. Its \<open>result\<close> is the
  awaited request of \<^verbatim>\<open>store.get(key)\<close>, an object and so truthy; the test
  \<^verbatim>\<open>result && result.expiry > Date.now()\<close> is decided by the comparison.
\<close>

definition getCachedData :: "'d manager \<Rightarrow> string \<Rightarrow> int \<Rightarrow> 'd option" where
  "getCachedData m key now =
     (case db m of
        None \<Rightarrow> None
      | Some d \<Rightarrow>
          (let result = cached_get key (cachedData d)
           in if js_greater (request_expiry result) now then request_data result else None))"

text \<open>
  \<open>now1\<close> and \<open>now2\<close> are the two readings of \<^verbatim>\<open>Date.now()\<close> in
  \<^verbatim>\<open>setCachedData\<close>. The \<^verbatim>\<open>put\<close> is issued, its request awaited, and
  \<^verbatim>\<open>true\<close> returned.
\<close>

definition setCachedData ::
  "'d manager \<Rightarrow> string \<Rightarrow> 'd \<Rightarrow> int \<Rightarrow> int \<Rightarrow> int \<Rightarrow> bool \<times> 'd manager" where
  "setCachedData m key data ttl now1 now2 =
     (case db m of
        None \<Rightarrow> (False, m)
      | Some d \<Rightarrow>
          (let cacheData = \<lparr>c_key = key, c_data = data, c_timestamp = now1, expiry = now2 + ttl\<rparr>
           in (True, m\<lparr>db := Some (d\<lparr>cachedData := cached_put cacheData (cachedData d)\<rparr>)\<rparr>)))"

subsection \<open>Replaying the queue\<close>

text \<open>
  A call of \<^verbatim>\<open>fetch\<close> made by the manager, and what comes back: the promise rejects,
  or a response arrives with a status and a body that \<^verbatim>\<open>response.json()\<close> can parse
  or not. The server answers a request knowing the requests made before it in the pass.
\<close>

record fetch_request =
  f_url :: string
  f_method :: string
  f_headers :: "(string \<times> string) list"
  f_body :: string

datatype fetch_result = NetworkError | Reply nat bool

type_synonym server = "fetch_request list \<Rightarrow> fetch_request \<Rightarrow> fetch_result"

definition status_ok :: "nat \<Rightarrow> bool" where
  "status_ok st = (200 \<le> st \<and> st \<le> 299)"

text \<open>Object spread: a later property replaces the value of an earlier one of that name.\<close>

definition obj_spread :: "(string \<times> 'a) list \<Rightarrow> (string \<times> 'a) list \<Rightarrow> (string \<times> 'a) list" where
  "obj_spread base ext = fold (\<lambda>kv acc. entry_put (fst kv) (snd kv) acc) ext base"

text \<open>\<open>tok\<close> is the result of \<^verbatim>\<open>getCSRFToken()\<close>.\<close>

definition replay_request :: "string \<Rightarrow> queued_action \<Rightarrow> fetch_request" where
  "replay_request tok action =
     \<lparr>f_url = act_url action,
      f_method = (case act_method action of None \<Rightarrow> ''POST''
                  | Some mth \<Rightarrow> if mth = [] then ''POST'' else mth),
      f_headers = obj_spread [(''Content-Type'', ''application/json''), (''X-CSRFToken'', tok)]
                    (act_headers action),
      f_body = act_body action\<rparr>"

datatype sync_error = FetchRejected | SyncFailed nat | JsonRejected

text \<open>
  \<^verbatim>\<open>syncSingleAction\<close> throws when the fetch rejects and when the response is not ok;
  it returns the promise of \<^verbatim>\<open>response.json()\<close>, so the caller's \<^verbatim>\<open>await\<close> throws
  as well when the body does not parse. The second component is the list of requests made so far.
\<close>

definition syncSingleAction ::
  "server \<Rightarrow> string \<Rightarrow> fetch_request list \<Rightarrow> queued_action \<Rightarrow> (sync_error + unit) \<times> fetch_request list" where
  "syncSingleAction srv tok sent action =
     (let rq = replay_request tok action in
      case srv sent rq of
        NetworkError \<Rightarrow> (Inl FetchRejected, sent @ [rq])
      | Reply st parses \<Rightarrow>
          if \<not> status_ok st then (Inl (SyncFailed st), sent @ [rq])
          else if parses then (Inr (), sent @ [rq])
          else (Inl JsonRejected, sent @ [rq]))"

text \<open>
  The body of the \<^verbatim>\<open>for\<close> loop of \<^verbatim>\<open>syncOfflineData\<close>, run over a list of actions:
  the inner \<^verbatim>\<open>catch\<close> swallows the failure of one action and the loop goes on.
\<close>

fun drain_loop ::
  "server \<Rightarrow> string \<Rightarrow> queued_action list \<Rightarrow> queued_action list \<times> fetch_request list
     \<Rightarrow> queued_action list \<times> fetch_request list" where
  "drain_loop srv tok [] (st, sent) = (st, sent)"
| "drain_loop srv tok (action # rest) (st, sent) =
     (case syncSingleAction srv tok sent action of
        (Inr u, sent') \<Rightarrow> drain_loop srv tok rest (actions_put (action\<lparr>synced := True\<rparr>) st, sent')
      | (Inl e, sent') \<Rightarrow> drain_loop srv tok rest (st, sent'))"

text \<open>
  \<^verbatim>\<open>syncOfflineData\<close>: past its guard, everything stands in one \<^verbatim>\<open>try\<close> whose
  \<^verbatim>\<open>catch\<close> logs and returns. \<^verbatim>\<open>index.getAll(false)\<close> is the first call in it;
  \<open>unsyncedActions\<close> is the awaited request, which the \<^verbatim>\<open>for\<close> loop then iterates.
  The call of \<^verbatim>\<open>updateSyncStatus\<close> after the loop writes nothing. The result is the
  manager afterwards and the requests sent to the network.
\<close>

definition syncOfflineData :: "server \<Rightarrow> string \<Rightarrow> 'd manager \<Rightarrow> 'd manager \<times> fetch_request list" where
  "syncOfflineData srv tok m =
     (if \<not> isOnline m then (m, [])
      else case db m of
        None \<Rightarrow> (m, [])
      | Some d \<Rightarrow>
          (case index_getAll (KBoolean False) (offlineActions d) of
             Inl e \<Rightarrow> (m, [])
           | Inr unsyncedActions \<Rightarrow>
               (case for_of unsyncedActions of
                  Inl e \<Rightarrow> (m, [])
                | Inr actions \<Rightarrow>
                    (case drain_loop srv tok actions (offlineActions d, []) of
                       (st', sent) \<Rightarrow> (m\<lparr>db := Some (d\<lparr>offlineActions := st'\<rparr>)\<rparr>, sent)))))"

subsection \<open>The worker's background sync (static/service-worker.js)\<close>

text \<open>
  The worker's own \<^verbatim>\<open>syncOfflineData\<close> reads its items from
  \<^verbatim>\<open>getOfflineDataFromIDB\<close> and calls \<^verbatim>\<open>removeOfflineDataFromIDB\<close> after an ok
  response. Both are placeholders in the source: the first returns the empty array, the
  second returns \<^verbatim>\<open>true\<close> and touches no store.
\<close>

definition getOfflineDataFromIDB :: "queued_action list" where
  "getOfflineDataFromIDB = []"

definition removeOfflineDataFromIDB :: "rat \<Rightarrow> bool" where
  "removeOfflineDataFromIDB i = True"

definition sw_request :: "queued_action \<Rightarrow> fetch_request" where
  "sw_request item =
     \<lparr>f_url = act_url item,
      f_method = (case act_method item of None \<Rightarrow> ''GET'' | Some mth \<Rightarrow> mth),
      f_headers = act_headers item,
      f_body = act_body item\<rparr>"

fun sw_sync_loop :: "server \<Rightarrow> queued_action list \<Rightarrow> 's \<times> fetch_request list \<Rightarrow> 's \<times> fetch_request list" where
  "sw_sync_loop srv [] (st, sent) = (st, sent)"
| "sw_sync_loop srv (item # rest) (st, sent) =
     (case srv sent (sw_request item) of
        NetworkError \<Rightarrow> sw_sync_loop srv rest (st, sent @ [sw_request item])
      | Reply code parses \<Rightarrow>
          if status_ok code
          then (let removed = removeOfflineDataFromIDB (act_id item)
                in sw_sync_loop srv rest (st, sent @ [sw_request item]))
          else sw_sync_loop srv rest (st, sent @ [sw_request item]))"

definition sw_syncOfflineData :: "server \<Rightarrow> 's \<Rightarrow> 's \<times> fetch_request list" where
  "sw_syncOfflineData srv st = sw_sync_loop srv getOfflineDataFromIDB (st, [])"


section \<open>Reference definitions and example inputs\<close>

subsection \<open>Route classes as the specification words them\<close>

text \<open>
  The specification names five rule classes and orders them: network-first routes,
  cacheable API routes, cache-first routes, exact static assets, and the default. Each
  class has its treatment. These two definitions follow the specification's words; the
  listener's own branches are \<open>fetch_listener\<close>.
\<close>

datatype route_class =
  NetworkFirstRule | CacheableApiRule | CacheFirstRule | StaticAssetRule | DefaultRule

definition spec_classify :: "string \<Rightarrow> route_class" where
  "spec_classify path =
     (if \<exists>r \<in> set NETWORK_FIRST_ROUTES. prefix r path then NetworkFirstRule
      else if \<exists>r \<in> set CACHEABLE_API_ROUTES. prefix r path then CacheableApiRule
      else if \<exists>r \<in> set CACHE_FIRST_ROUTES. prefix r path then CacheFirstRule
      else if path \<in> set STATIC_ASSETS then StaticAssetRule
      else DefaultRule)"

fun spec_strategy :: "route_class \<Rightarrow> handler" where
  "spec_strategy NetworkFirstRule = HandleNetworkFirst"
| "spec_strategy CacheableApiRule = HandleStaleWhileRevalidate"
| "spec_strategy CacheFirstRule = HandleCacheFirst"
| "spec_strategy StaticAssetRule = HandleCacheFirst"
| "spec_strategy DefaultRule = HandleStaleWhileRevalidate"

subsection \<open>Reading the queue of a manager\<close>

definition queue_of :: "'d manager \<Rightarrow> queued_action list" where
  "queue_of m = (case db m of None \<Rightarrow> [] | Some d \<Rightarrow> offlineActions d)"

subsection \<open>Requests, caches and networks used as examples\<close>

definition login_request :: request where
  "login_request =
     \<lparr>req_method = ''GET'', req_url = ''https://ficore.example/users/login'',
      url_protocol = ''https:'', url_pathname = ''/users/login'',
      hdr_accept = Some ''text/html''\<rparr>"

definition ext_request :: request where
  "ext_request =
     \<lparr>req_method = ''GET'', req_url = ''moz-extension://0a1b/panel.js'',
      url_protocol = ''moz-extension:'', url_pathname = ''/panel.js'',
      hdr_accept = None\<rparr>"

definition post_request :: request where
  "post_request =
     \<lparr>req_method = ''POST'', req_url = ''https://ficore.example/bills/add'',
      url_protocol = ''https:'', url_pathname = ''/bills/add'',
      hdr_accept = Some ''application/json''\<rparr>"

definition dashboard_request :: request where
  "dashboard_request =
     \<lparr>req_method = ''GET'', req_url = ''https://ficore.example/dashboard/'',
      url_protocol = ''https:'', url_pathname = ''/dashboard/'',
      hdr_accept = Some ''text/html,application/xhtml+xml''\<rparr>"

definition offline_network :: platform where
  "offline_network = \<lparr>net_fetch = (\<lambda>req. None), cache_opens = (\<lambda>name. True)\<rparr>"

definition stale_login :: response where
  "stale_login = \<lparr>status = 200, headers = [], body = Served ''stale login page''\<rparr>"

definition live_login :: response where
  "live_login = \<lparr>status = 200, headers = [], body = Served ''live login page''\<rparr>"

definition login_cached :: cache_storage where
  "login_cached = [(DYNAMIC_CACHE, [(''https://ficore.example/users/login'', stale_login)])]"

definition live_network :: platform where
  "live_network = \<lparr>net_fetch = (\<lambda>req. Some live_login), cache_opens = (\<lambda>name. True)\<rparr>"

definition live_network_full_store :: platform where
  "live_network_full_store =
     \<lparr>net_fetch = (\<lambda>req. Some live_login), cache_opens = (\<lambda>name. False)\<rparr>"

definition old_and_new :: cache_storage where
  "old_and_new =
     [(''ficore-static-v2.0'', [(''https://ficore.example/static/js/scripts.js'', stale_login)]),
      (''ficore-static-v2.1'', [(''https://ficore.example/static/js/scripts.js'', live_login)]),
      (''ficore-dynamic-v2.0'', []),
      (''ficore-api-v2.1'', [])]"

subsection \<open>Queues, caches and servers used as examples\<close>

text \<open>
  \<open>json_server\<close> answers every replay with status 200 and a JSON body; \<open>flaky_server\<close>
  rejects the creation of a bill with status 500 and accepts everything else.
  \<open>two_queued_manager\<close> holds two unsynced actions, the first stored at time 99 and the
  second at time 100; \<open>bills_cached_manager\<close> is \<open>summary_cached_manager\<close> after the
  bills have been cached at time 1000 for one hour.
\<close>

definition bill_action :: queued_action where
  "bill_action =
     \<lparr>act_id = 1700000000000 + 1 / 4, act_type = ''save_bill'', act_url = ''/bills/add'',
      act_method = Some ''POST'', act_headers = [], act_body = ''amount=50'',
      timestamp = 1700000000000, synced = False\<rparr>"


definition offline_manager :: "string manager" where
  "offline_manager = \<lparr>db = Some \<lparr>offlineActions = [bill_action], cachedData = []\<rparr>, isOnline = False\<rparr>"

definition json_server :: server where
  "json_server sent rq = Reply 200 True"


definition create_action :: queued_action where
  "create_action =
     \<lparr>act_id = 0, act_type = ''save_bills'', act_url = ''/api/bills'',
      act_method = Some ''POST'', act_headers = [], act_body = ''create'',
      timestamp = 0, synced = False\<rparr>"

definition update_action :: queued_action where
  "update_action =
     \<lparr>act_id = 0, act_type = ''save_bills'', act_url = ''/api/bills/7'',
      act_method = Some ''POST'', act_headers = [], act_body = ''update'',
      timestamp = 0, synced = False\<rparr>"

definition empty_manager :: "string manager" where
  "empty_manager = \<lparr>db = Some \<lparr>offlineActions = [], cachedData = []\<rparr>, isOnline = True\<rparr>"

definition first_queued :: queued_action where
  "first_queued =
     \<lparr>act_id = 199 / 2, act_type = ''save_bills'', act_url = ''/api/bills'',
      act_method = Some ''POST'', act_headers = [], act_body = ''create'',
      timestamp = 99, synced = False\<rparr>"

definition second_queued :: queued_action where
  "second_queued =
     \<lparr>act_id = 401 / 4, act_type = ''save_bills'', act_url = ''/api/bills/7'',
      act_method = Some ''POST'', act_headers = [], act_body = ''update'',
      timestamp = 100, synced = False\<rparr>"

definition two_queued :: "string durable_store" where
  "two_queued = \<lparr>offlineActions = [first_queued, second_queued], cachedData = []\<rparr>"

definition two_queued_manager :: "string manager" where
  "two_queued_manager = \<lparr>db = Some two_queued, isOnline = True\<rparr>"

definition summary_record :: "string cached_record" where
  "summary_record =
     \<lparr>c_key = ''dashboard_summary'', c_data = ''{}'', c_timestamp = 500, expiry = 3600500\<rparr>"

definition bills_record :: "string cached_record" where
  "bills_record =
     \<lparr>c_key = ''user_bills'', c_data = ''[]'', c_timestamp = 1000, expiry = 3601000\<rparr>"

definition summary_cached_manager :: "string manager" where
  "summary_cached_manager =
     \<lparr>db = Some \<lparr>offlineActions = [], cachedData = [summary_record]\<rparr>, isOnline = True\<rparr>"

definition bills_cached_manager :: "string manager" where
  "bills_cached_manager =
     \<lparr>db = Some \<lparr>offlineActions = [], cachedData = [summary_record, bills_record]\<rparr>,
      isOnline = True\<rparr>"

section \<open>Properties of the service worker\<close>

subsection \<open>Route classification\<close>

lemma startsWith_prefix: "startsWith s p = prefix p s"
  unfolding startsWith_def
  by (metis prefix_def append_take_drop_id append_eq_conv_conj)

lemma list_ex_startsWith: "list_ex (\<lambda>route. startsWith s route) rs = (\<exists>r \<in> set rs. prefix r s)"
  by (simp add: list_ex_iff startsWith_prefix)

lemma list_ex_eq: "list_ex (\<lambda>asset. s = asset) rs = (s \<in> set rs)"
  by (auto simp: list_ex_iff)

text \<open>
  Claim C5. For a GET request that the listener intercepts, exactly one handler is
  selected, and it is the treatment of the first rule class that matches the path, in the
  order network-first, cacheable API (stale-while-revalidate), cache-first, exact static
  asset (the cache-first handler), default (stale-while-revalidate).
\<close>

theorem classification_precedence:
  assumes "req_method req = ''GET''" and "url_protocol req \<noteq> ''chrome-extension:''"
  shows "fetch_listener req = Some (spec_strategy (spec_classify (url_pathname req)))
         \<and> (\<exists>!h. fetch_listener req = Some h)"
proof -
  have sel: "fetch_listener req = Some (spec_strategy (spec_classify (url_pathname req)))"
    using assms
    unfolding fetch_listener_def spec_classify_def Let_def list_ex_startsWith list_ex_eq
    by simp
  then show ?thesis by simp
qed

text \<open>
  The login page is a GET on a network-first route.
\<close>

theorem classification_precedence_witness:
  "req_method login_request = ''GET'' \<and> url_protocol login_request \<noteq> ''chrome-extension:''
   \<and> fetch_listener login_request = Some HandleNetworkFirst
   \<and> spec_classify (url_pathname login_request) = NetworkFirstRule"
proof -
  have g: "req_method login_request = ''GET''" by (simp add: login_request_def)
  have p: "url_protocol login_request \<noteq> ''chrome-extension:''" by (simp add: login_request_def)
  have c: "spec_classify (url_pathname login_request) = NetworkFirstRule"
    by (simp add: spec_classify_def login_request_def NETWORK_FIRST_ROUTES_def)
  from classification_precedence [OF g p] c g p show ?thesis by simp
qed

subsection \<open>Requests that are not intercepted\<close>

text \<open>
  Claim C9, as stated, fails: the listener lets a request pass only when its method is
  not GET or its scheme is \<^verbatim>\<open>chrome-extension:\<close>. A GET with another scheme
  outside http and https is answered by a handler.
\<close>

theorem scheme_counterexample:
  "req_method ext_request = ''GET'' \<and> url_protocol ext_request \<noteq> ''http:''
   \<and> url_protocol ext_request \<noteq> ''https:''
   \<and> on_fetch offline_network ''moz-extension://0a1b'' 0 [] ext_request \<noteq> PassThrough"
  by (simp add: ext_request_def on_fetch_def fetch_listener_def startsWith_def
      NETWORK_FIRST_ROUTES_def CACHEABLE_API_ROUTES_def CACHE_FIRST_ROUTES_def STATIC_ASSETS_def
      split: prod.splits)

text \<open>
  Claim C9, amended. A request passes through untouched exactly when it is not a GET or
  its URL scheme is \<^verbatim>\<open>chrome-extension:\<close>; every other request is answered by a
  strategy handler.
\<close>

theorem pass_through_iff:
  "(on_fetch net origin now cs req = PassThrough)
     = (req_method req \<noteq> ''GET'' \<or> url_protocol req = ''chrome-extension:'')"
  by (auto simp: on_fetch_def fetch_listener_def Let_def split: prod.splits option.splits if_splits)

theorem pass_through_iff_witness:
  "req_method post_request \<noteq> ''GET''
   \<and> on_fetch offline_network ''https://ficore.example'' 0 [] post_request = PassThrough"
  using pass_through_iff [of offline_network "''https://ficore.example''" 0 "[]" post_request]
  by (simp add: post_request_def)

subsection \<open>Offline responses\<close>

lemma offline_response_settled:
  "settle (createOfflineResponse origin now cs req) =
     (if accepts req ''text/html'' then
        (case caches_match cs (origin @ ''/general/home'') of
           Some home \<Rightarrow> JResponse home
         | None \<Rightarrow> JResponse \<lparr>status = 200, headers = [(''content-type'', ''text/html'')],
                               body = OfflineHTML\<rparr>)
      else if accepts req ''application/json'' then
        JResponse \<lparr>status = 200, headers = [(''content-type'', ''application/json'')],
                   body = OfflineJSON True ''This data is not available offline'' now\<rparr>
      else JResponse \<lparr>status = 503, headers = [(''content-type'', ''text/plain;charset=UTF-8'')],
                      body = PlainText ''Offline: Resource not available''\<rparr>)"
  by (simp add: createOfflineResponse_def js_or_def of_match_def split: option.splits)

lemma other_handlers_offline:
  assumes "fetch_listener req = Some h" and "h \<noteq> HandleStaleWhileRevalidate"
    and "net_fetch net req = None" and "caches_match cs (req_url req) = None"
  shows "on_fetch net origin now cs req
           = RespondWith (settle (createOfflineResponse origin now cs req)) cs"
  using assms
  by (cases h)
     (simp_all add: on_fetch_def handleNetworkFirst_def networkFirst_catch_def handleCacheFirst_def)

lemma swr_offline_general:
  assumes "fetch_listener req = Some HandleStaleWhileRevalidate"
    and "net_fetch net req = None" and "caches_match cs (req_url req) = None"
  shows "on_fetch net origin now cs req = RespondWith JNull cs"
  using assms
  by (simp add: on_fetch_def handleStaleWhileRevalidate_def of_match_def js_or_def Let_def)

text \<open>
  Claim C1 at a failing input. A GET of \<^verbatim>\<open>/dashboard/\<close> that accepts HTML is
  handled stale-while-revalidate. With nothing cached and the network unreachable,
  \<open>cachedResponse\<close> is undefined and \<open>fetchPromise\<close>, being a promise, is truthy: the
  handler returns it, it settles to \<^verbatim>\<open>null\<close>, and \<^verbatim>\<open>createOfflineResponse\<close> is
  never reached. The worker responds with \<^verbatim>\<open>null\<close>, not with the status-200
  fallback page the claim promises.
\<close>

theorem swr_offline_uncached:
  "on_fetch offline_network origin now [] dashboard_request = RespondWith JNull []"
  by (simp add: on_fetch_def fetch_listener_def startsWith_def dashboard_request_def
      NETWORK_FIRST_ROUTES_def CACHEABLE_API_ROUTES_def handleStaleWhileRevalidate_def
      offline_network_def of_match_def js_or_def)

subsection \<open>Network first\<close>

text \<open>
  When the fetch completes and the dynamic cache opens (or the response is not ok, so
  that no cache is opened), the live response is returned whatever the caches hold.
\<close>

lemma network_first_live_when_cache_opens:
  assumes "fetch_listener req = Some HandleNetworkFirst" and "net_fetch net req = Some r"
    and "ok r \<longrightarrow> cache_opens net DYNAMIC_CACHE"
  shows "on_fetch net origin now cs req =
           RespondWith (JResponse r)
             (if ok r then cache_put DYNAMIC_CACHE (req_url req) r cs else cs)"
  using assms by (simp add: on_fetch_def handleNetworkFirst_def)

text \<open>
  Claim C8 at a failing input. The login page is requested, a network-first route. The
  fetch completes with the live page, status 200, and \<^verbatim>\<open>caches.open(DYNAMIC_CACHE)\<close>
  rejects. The \<^verbatim>\<open>await\<close> of it stands inside the \<^verbatim>\<open>try\<close>, so the \<^verbatim>\<open>catch\<close>
  written for a failed network runs: it finds the stale page that an earlier visit left
  in the cache and returns it in place of the live response the claim promises.
\<close>

theorem open_fault_masks_live_response:
  "net_fetch live_network_full_store login_request = Some live_login
   \<and> ok live_login
   \<and> \<not> cache_opens live_network_full_store DYNAMIC_CACHE
   \<and> caches_match login_cached (req_url login_request) = Some stale_login
   \<and> stale_login \<noteq> live_login
   \<and> on_fetch live_network_full_store ''https://ficore.example'' 0 login_cached login_request
       = RespondWith (JResponse stale_login) login_cached"
  by (simp add: live_network_full_store_def ok_def live_login_def stale_login_def
      login_cached_def login_request_def on_fetch_def fetch_listener_def startsWith_def
      NETWORK_FIRST_ROUTES_def handleNetworkFirst_def networkFirst_catch_def)

subsection \<open>Activation\<close>

lemma fold_delete_filter:
  "fold (\<lambda>cacheName acc. if cacheName \<notin> W then caches_delete cacheName acc else acc) ns acc
     = filter (\<lambda>nc. fst nc \<in> W \<or> fst nc \<notin> set ns) acc"
proof (induction ns arbitrary: acc)
  case Nil
  then show ?case by simp
next
  case (Cons n ns)
  show ?case
    by (auto simp: Cons.IH caches_delete_def intro!: filter_cong)
qed

lemma activate_filter: "activate cs = filter (\<lambda>nc. fst nc \<in> set cacheWhitelist) cs"
  unfolding activate_def caches_keys_def fold_delete_filter
  by (rule filter_cong) auto

lemma map_of_filter_fst:
  "P name \<Longrightarrow> map_of (filter (\<lambda>nc. P (fst nc)) cs) name = map_of cs name"
  by (induction cs) auto

text \<open>
  Claim C6. After activation no cache whose name is outside the whitelist of the three
  current-version names remains, and each whitelisted cache is kept with its entries:
  activation keeps exactly the whitelisted caches.
\<close>

theorem activate_evicts:
  "(\<forall>name. name \<notin> set cacheWhitelist \<longrightarrow> name \<notin> set (caches_keys (activate cs)))
   \<and> (\<forall>name. name \<in> set cacheWhitelist \<longrightarrow> map_of (activate cs) name = map_of cs name)
   \<and> activate cs = filter (\<lambda>nc. fst nc \<in> set cacheWhitelist) cs
   \<and> cacheWhitelist = [''ficore-static-'' @ CACHE_VERSION, ''ficore-dynamic-'' @ CACHE_VERSION,
                        ''ficore-api-'' @ CACHE_VERSION]"
proof -
  have a: "\<forall>name. name \<notin> set cacheWhitelist \<longrightarrow> name \<notin> set (caches_keys (activate cs))"
    by (auto simp: activate_filter caches_keys_def)
  have b: "\<forall>name. name \<in> set cacheWhitelist \<longrightarrow> map_of (activate cs) name = map_of cs name"
    by (simp add: activate_filter map_of_filter_fst [where P = "\<lambda>n. n \<in> set cacheWhitelist"])
  have c: "cacheWhitelist = [''ficore-static-'' @ CACHE_VERSION, ''ficore-dynamic-'' @ CACHE_VERSION,
                        ''ficore-api-'' @ CACHE_VERSION]"
    by (simp add: cacheWhitelist_def STATIC_CACHE_def DYNAMIC_CACHE_def API_CACHE_def)
  from a b c activate_filter show ?thesis by blast
qed

text \<open>
  The caches of version v2.0 go, those of v2.1 stay.
\<close>

theorem activate_evicts_witness:
  "''ficore-static-v2.0'' \<notin> set cacheWhitelist \<and> ''ficore-static-v2.1'' \<in> set cacheWhitelist
   \<and> ''ficore-static-v2.0'' \<in> set (caches_keys old_and_new)
   \<and> ''ficore-static-v2.0'' \<notin> set (caches_keys (activate old_and_new))
   \<and> map_of (activate old_and_new) ''ficore-static-v2.1''
       = Some [(''https://ficore.example/static/js/scripts.js'', live_login)]
   \<and> caches_keys (activate old_and_new) = [''ficore-static-v2.1'', ''ficore-api-v2.1'']"
proof -
  have w: "cacheWhitelist = [''ficore-static-v2.1'', ''ficore-dynamic-v2.1'', ''ficore-api-v2.1'']"
    by (simp add: cacheWhitelist_def STATIC_CACHE_def DYNAMIC_CACHE_def API_CACHE_def CACHE_VERSION_def)
  have o: "''ficore-static-v2.0'' \<notin> set cacheWhitelist" by (simp add: w)
  have n: "''ficore-static-v2.1'' \<in> set cacheWhitelist" by (simp add: w)
  have k: "caches_keys (filter (\<lambda>nc. fst nc \<in> set cacheWhitelist) old_and_new)
             = [''ficore-static-v2.1'', ''ficore-api-v2.1'']"
    by (simp add: w old_and_new_def caches_keys_def)
  from activate_evicts [of old_and_new] o n k show ?thesis
    by (simp add: old_and_new_def caches_keys_def)
qed

section \<open>Properties of the offline manager\<close>

subsection \<open>What the store calls come to\<close>

lemma updateSyncStatus_throws: "db m = Some d \<Longrightarrow> \<exists>e. updateSyncStatus m = Inl e"
  by (simp add: updateSyncStatus_def index_count_def)

lemma storeOfflineAction_reports_false: "fst (storeOfflineAction m action now idv) = False"
  by (cases "db m")
     (simp_all add: storeOfflineAction_def Let_def updateSyncStatus_def index_count_def)

lemma storeOfflineAction_writes:
  assumes "db m = Some d" and "idv \<notin> set (map act_id (offlineActions d))"
  shows "queue_of (snd (storeOfflineAction m action now idv))
           = offlineActions d @ [action\<lparr>timestamp := now, synced := False, act_id := idv\<rparr>]"
  using assms
  by (simp add: storeOfflineAction_def Let_def updateSyncStatus_def index_count_def
      actions_add_def queue_of_def)

lemma two_queued_reachable:
  "snd (storeOfflineAction (snd (storeOfflineAction empty_manager create_action 99 (199 / 2)))
          update_action 100 (401 / 4)) = two_queued_manager"
  by (simp add: storeOfflineAction_def Let_def updateSyncStatus_def index_count_def
      empty_manager_def actions_add_def create_action_def update_action_def
      two_queued_manager_def two_queued_def first_queued_def second_queued_def)

lemma getCachedData_null: "getCachedData m key now = None"
  by (cases "db m") (simp_all add: getCachedData_def Let_def request_expiry_def js_greater_def)

lemma syncOfflineData_inert: "syncOfflineData srv tok m = (m, [])"
  by (cases "db m") (simp_all add: syncOfflineData_def index_getAll_def)

text \<open>
  The worker's own background sync reads an empty list of items and its removal routine
  touches no store: it sends nothing and changes nothing.
\<close>

lemma sw_sync_loop_store: "fst (sw_sync_loop srv items (st, sent)) = st"
  by (induction items arbitrary: sent)
     (auto simp: Let_def split: fetch_result.splits)

lemma sw_syncOfflineData_idle: "sw_syncOfflineData srv st = (st, [])"
  by (simp add: sw_syncOfflineData_def getOfflineDataFromIDB_def)

subsection \<open>The application-level cache\<close>

lemma cached_get_put: "cached_get (c_key c) (cached_put c st) = IDBRequest (Some c)"
  by (induction st) (auto simp: cached_get_def cached_put_def)

lemma setCachedData_writes:
  assumes "db m = Some d"
    and "c = \<lparr>c_key = key, c_data = data, c_timestamp = now1, expiry = now2 + ttl\<rparr>"
  shows "setCachedData m key data ttl now1 now2
           = (True, m\<lparr>db := Some (d\<lparr>cachedData := cached_put c (cachedData d)\<rparr>)\<rparr>)
         \<and> cached_get key (cached_put c (cachedData d)) = IDBRequest (Some c)"
  using assms cached_get_put [of c "cachedData d"]
  by (simp add: setCachedData_def Let_def)

text \<open>
  Claim C7 at a failing input. The bills are cached at time 1000 with one hour to live:
  \<^verbatim>\<open>setCachedData\<close> returns true and the record, expiring at 3601000, is in the store.
  Read at once, at time 1000, \<^verbatim>\<open>getCachedData\<close> returns \<^verbatim>\<open>null\<close>: its
  \<open>result\<close> is the request object of \<^verbatim>\<open>store.get\<close>, which has no \<^verbatim>\<open>expiry\<close>, and
  \<^verbatim>\<open>undefined > Date.now()\<close> is false. The claim promises the data.
\<close>

theorem cached_read_returns_null:
  "setCachedData summary_cached_manager ''user_bills'' ''[]'' 3600000 1000 1000
     = (True, bills_cached_manager)
   \<and> cached_get ''user_bills'' [summary_record, bills_record] = IDBRequest (Some bills_record)
   \<and> expiry bills_record = 3601000
   \<and> getCachedData bills_cached_manager ''user_bills'' 1000 = None"
  by (simp add: setCachedData_def summary_cached_manager_def cached_put_def
      bills_cached_manager_def bills_record_def summary_record_def cached_get_def
      getCachedData_def request_expiry_def js_greater_def)

subsection \<open>The guard of the drain\<close>

text \<open>
  Claim C10. While the manager is offline, or has no store handle, \<^verbatim>\<open>syncOfflineData\<close>
  returns at once: it makes no request and leaves the manager, its queue included, as it
  was.
\<close>

theorem drain_guard:
  "\<not> isOnline m \<or> db m = None \<Longrightarrow> syncOfflineData srv tok m = (m, [])"
  by (auto simp: syncOfflineData_def)

theorem drain_guard_witness:
  "\<not> isOnline offline_manager \<and> queue_of offline_manager = [bill_action]
   \<and> \<not> synced bill_action
   \<and> syncOfflineData json_server ''csrf'' offline_manager = (offline_manager, [])"
proof -
  have a: "\<not> isOnline offline_manager" by (simp add: offline_manager_def)
  have q: "queue_of offline_manager = [bill_action]" by (simp add: queue_of_def offline_manager_def)
  have s: "\<not> synced bill_action" by (simp add: bill_action_def)
  from a have "\<not> isOnline offline_manager \<or> db offline_manager = None" by simp
  from drain_guard [OF this, of json_server "''csrf''"] a q s show ?thesis by simp
qed

subsection \<open>The drain past its guard\<close>



text \<open>
  Claim C3 at a failing input. Action A is queued with timestamp 99 and action B with
  timestamp 100, both unsynced, and the server accepts every replay. The claim has A's
  request sent before B's; the pass sends no request at all, for the reason given under
  C2.
\<close>

theorem queued_pair_never_replayed:
  "isOnline two_queued_manager
   \<and> queue_of two_queued_manager = [first_queued, second_queued]
   \<and> timestamp first_queued < timestamp second_queued
   \<and> \<not> synced first_queued \<and> \<not> synced second_queued
   \<and> snd (syncOfflineData json_server ''csrf'' two_queued_manager) = []
   \<and> queue_of (fst (syncOfflineData json_server ''csrf'' two_queued_manager))
       = [first_queued, second_queued]"
  by (simp add: syncOfflineData_def two_queued_manager_def two_queued_def index_getAll_def
      first_queued_def second_queued_def queue_of_def)

end
